theory Spec2Isabelle
  imports Complex_Main "HOL-Library.Sublist"
begin

section \<open>Numbers and strings\<close>

text \<open>
  The rule-based analysis of RealityCheck: the classes \<^verbatim>\<open>RageDetector\<close>,
  \<^verbatim>\<open>DistortionDetector\<close> and \<^verbatim>\<open>NLPPipeline\<close>. They compute with JavaScript numbers
  and strings. Numbers are modelled as \<^typ>\<open>real\<close>: the scores are sums, quotients and
  \<^verbatim>\<open>Math.min\<close>/\<^verbatim>\<open>Math.max\<close> of small decimal constants, and the properties below are
  about these formulas, not about rounding. Strings are \<^typ>\<open>string\<close>; letter case and
  white space are those of ASCII.
\<close>

definition upperLetters :: string where
  "upperLetters = ''ABCDEFGHIJKLMNOPQRSTUVWXYZ''"

definition lowerLetters :: string where
  "lowerLetters = ''abcdefghijklmnopqrstuvwxyz''"

definition digits :: string where
  "digits = ''0123456789''"

definition toLowerChar :: "char \<Rightarrow> char" where
  "toLowerChar c = (case map_of (zip upperLetters lowerLetters) c of Some l \<Rightarrow> l | None \<Rightarrow> c)"

definition toUpperChar :: "char \<Rightarrow> char" where
  "toUpperChar c = (case map_of (zip lowerLetters upperLetters) c of Some u \<Rightarrow> u | None \<Rightarrow> c)"

text \<open>\<^verbatim>\<open>String.prototype.toLowerCase\<close>, as it acts on ASCII text.\<close>

definition toLowerCase :: "string \<Rightarrow> string" where
  "toLowerCase s = map toLowerChar s"

text \<open>The characters \<^verbatim>\<open>\w\<close> stands for, the line terminators \<^verbatim>\<open>.\<close> refuses, and the
  white space \<^verbatim>\<open>trim\<close> removes.\<close>

definition isWordChar :: "char \<Rightarrow> bool" where
  "isWordChar c = (c \<in> set (upperLetters @ lowerLetters @ digits @ ''_''))"

definition isLineTerminator :: "char \<Rightarrow> bool" where
  "isLineTerminator c = (c \<in> set [CHR 0x0A, CHR 0x0D])"

definition isWhitespace :: "char \<Rightarrow> bool" where
  "isWhitespace c = (c \<in> set [CHR 0x09, CHR 0x0A, CHR 0x0B, CHR 0x0C, CHR 0x0D, CHR '' ''])"

text \<open>\<^verbatim>\<open>String.prototype.trim\<close>, as it acts on ASCII text.\<close>

definition trim :: "string \<Rightarrow> string" where
  "trim s = rev (dropWhile isWhitespace (rev (dropWhile isWhitespace s)))"

text \<open>\<^verbatim>\<open>String.prototype.indexOf\<close>: the first position where \<open>m\<close> starts in \<open>t\<close>;
  \<open>None\<close> is JavaScript's \<open>-1\<close>.\<close>

fun indexOfFrom :: "string \<Rightarrow> string \<Rightarrow> nat \<Rightarrow> nat option" where
  "indexOfFrom [] m i = (if m = [] then Some i else None)"
| "indexOfFrom (c # cs) m i = (if prefix m (c # cs) then Some i else indexOfFrom cs m (Suc i))"

definition indexOf :: "string \<Rightarrow> string \<Rightarrow> nat option" where
  "indexOf t m = indexOfFrom t m 0"


text \<open>\<^verbatim>\<open>String.prototype.substring(a, b)\<close>: the arguments are swapped when \<open>a > b\<close> and
  clamped to the length (which \<open>take\<close> and \<open>drop\<close> do).\<close>

definition substring :: "string \<Rightarrow> nat \<Rightarrow> nat \<Rightarrow> string" where
  "substring s a b = take (max a b - min a b) (drop (min a b) s)"

text \<open>\<^verbatim>\<open>Array.prototype.join\<close>.\<close>

fun join :: "string \<Rightarrow> string list \<Rightarrow> string" where
  "join sep [] = []"
| "join sep [x] = x"
| "join sep (x # y # ys) = x @ sep @ join sep (y # ys)"

text \<open>\<^verbatim>\<open>a || b\<close> on numbers: \<open>b\<close> when \<open>a\<close> is zero.\<close>

definition orElse :: "real \<Rightarrow> real \<Rightarrow> real" where
  "orElse a b = (if a = 0 then b else a)"

section \<open>Regular expressions\<close>

text \<open>
  The patterns of the detectors use literals, \<^verbatim>\<open>.\<close>, character classes, concatenation,
  alternation, \<^verbatim>\<open>*\<close>, \<^verbatim>\<open>?\<close> and \<^verbatim>\<open>\b\<close>. A cursor is the character before the current
  position (for \<^verbatim>\<open>\b\<close>) and the rest of the input. \<open>matchRe\<close> returns the cursors at which
  a match starting at the given cursor can end, in the order JavaScript's backtracking
  matcher tries them, so the head of the list is the match \<^verbatim>\<open>exec\<close> reports. The flag
  \<open>ic\<close> is the \<^verbatim>\<open>i\<close> flag.
\<close>

datatype regex =
    Lit string
  | AnyChar
  | OneOf string
  | Seq regex regex
  | Alt regex regex
  | Star regex
  | Opt regex
  | WordBoundary

type_synonym cursor = "char option \<times> string"

definition sameChar :: "bool \<Rightarrow> char \<Rightarrow> char \<Rightarrow> bool" where
  "sameChar ic x y = (if ic then toUpperChar x = toUpperChar y else x = y)"

fun matchLit :: "bool \<Rightarrow> string \<Rightarrow> cursor \<Rightarrow> cursor option" where
  "matchLit ic [] c = Some c"
| "matchLit ic (x # xs) (p, []) = None"
| "matchLit ic (x # xs) (p, y # ys) =
     (if sameChar ic x y then matchLit ic xs (Some y, ys) else None)"

text \<open>
  Greedy iteration: one more round of \<open>f\<close> first, the empty iteration last. A round that
  consumes nothing is rejected, as the language's \<^verbatim>\<open>RepeatMatcher\<close> does, so at most
  as many rounds as there are characters left can succeed; that number is the bound
  \<open>matchRe\<close> passes.
\<close>

primrec starIter :: "(cursor \<Rightarrow> cursor list) \<Rightarrow> nat \<Rightarrow> cursor \<Rightarrow> cursor list" where
  "starIter f 0 c = [c]"
| "starIter f (Suc n) c =
     concat (map (starIter f n) (filter (\<lambda>c'. length (snd c') < length (snd c)) (f c))) @ [c]"

definition atWordBoundary :: "cursor \<Rightarrow> bool" where
  "atWordBoundary c =
     ((case fst c of None \<Rightarrow> False | Some x \<Rightarrow> isWordChar x) \<noteq>
      (case snd c of [] \<Rightarrow> False | y # _ \<Rightarrow> isWordChar y))"

primrec matchRe :: "bool \<Rightarrow> regex \<Rightarrow> cursor \<Rightarrow> cursor list" where
  "matchRe ic (Lit w) c = (case matchLit ic w c of None \<Rightarrow> [] | Some c' \<Rightarrow> [c'])"
| "matchRe ic AnyChar c =
     (case snd c of [] \<Rightarrow> []
      | y # ys \<Rightarrow> if isLineTerminator y then [] else [(Some y, ys)])"
| "matchRe ic (OneOf cs) c =
     (case snd c of [] \<Rightarrow> []
      | y # ys \<Rightarrow> if list_ex (\<lambda>x. sameChar ic x y) cs then [(Some y, ys)] else [])"
| "matchRe ic (Seq a b) c = concat (map (matchRe ic b) (matchRe ic a c))"
| "matchRe ic (Alt a b) c = matchRe ic a c @ matchRe ic b c"
| "matchRe ic (Star a) c = starIter (matchRe ic a) (length (snd c)) c"
| "matchRe ic (Opt a) c = matchRe ic a c @ [c]"
| "matchRe ic WordBoundary c = (if atWordBoundary c then [c] else [])"

text \<open>
  \<^verbatim>\<open>String.prototype.match\<close> with the \<^verbatim>\<open>g\<close> flag: the matches from left to right, each
  search starting where the last match ended, one character further after an empty
  match. The empty list is JavaScript's \<^verbatim>\<open>null\<close>.
\<close>

function matchFrom :: "bool \<Rightarrow> regex \<Rightarrow> cursor \<Rightarrow> string list" where
  "matchFrom ic r c =
     (case matchRe ic r c of
        [] \<Rightarrow> (case snd c of [] \<Rightarrow> [] | y # ys \<Rightarrow> matchFrom ic r (Some y, ys))
      | e # _ \<Rightarrow>
          (if length (snd e) < length (snd c)
           then take (length (snd c) - length (snd e)) (snd c) # matchFrom ic r e
           else [] # (case snd c of [] \<Rightarrow> [] | y # ys \<Rightarrow> matchFrom ic r (Some y, ys))))"
  by pat_completeness auto
termination
  by (relation "measure (\<lambda>(ic, r, c). length (snd c))") auto

definition matchGlobal :: "bool \<Rightarrow> regex \<Rightarrow> string \<Rightarrow> string list" where
  "matchGlobal ic r s = matchFrom ic r (None, s)"

text \<open>Abbreviations for writing the patterns down.\<close>

fun alts :: "regex list \<Rightarrow> regex" where
  "alts [] = OneOf []"
| "alts [r] = r"
| "alts (r # rs) = Alt r (alts rs)"

fun seqs :: "regex list \<Rightarrow> regex" where
  "seqs [] = Lit []"
| "seqs [r] = r"
| "seqs (r # rs) = Seq r (seqs rs)"

definition words :: "string list \<Rightarrow> regex" where
  "words ws = alts (map Lit ws)"

definition wordBounded :: "regex \<Rightarrow> regex" where
  "wordBounded r = seqs [WordBoundary, r, WordBoundary]"

definition oneOrMore :: "regex \<Rightarrow> regex" where
  "oneOrMore r = Seq r (Star r)"

section \<open>Data model\<close>

datatype DistortionType =
  PERSECUTION | GRANDIOSITY | CONSPIRACY | CATASTROPHIZING | ALL_OR_NOTHING | MIND_READING
  | FORTUNE_TELLING

datatype RageType =
  VERBAL_AGGRESSION | CAPS_LOCK | EXCLAMATION_SPAM | PROFANITY | THREAT_LANGUAGE

record SentimentAnalysis =
  valence :: real
  arousal :: real
  dominance :: "real option"
  s_confidence :: real

record CognitiveDistortion =
  d_type :: DistortionType
  severity :: real
  d_keywords :: "string list"
  d_context :: string

record RageIndicator =
  r_type :: RageType
  intensity :: real
  r_pattern :: string
  r_context :: string

record NLPAnalysis =
  sentiment :: SentimentAnalysis
  cognitiveDistortions :: "CognitiveDistortion list"
  rageIndicators :: "RageIndicator list"
  confidence :: real
  processingTime :: real

text \<open>
  A rule of the distortion table. The source keeps the pattern as a string and compiles
  it at every check; \<open>None\<close> stands for a string \<^verbatim>\<open>new RegExp\<close> rejects. The category of
  a distortion rule is a \<open>DistortionType\<close> (\<^verbatim>\<open>createDistortion\<close> casts it).
\<close>

record RuleConfig =
  ruleId :: string
  pattern :: "regex option"
  weight :: real
  category :: DistortionType
  enabled :: bool

section \<open>RageDetector\<close>

record RagePattern =
  p_type :: RageType
  p_pattern :: regex
  p_weight :: real

definition ragePatterns :: "RagePattern list" where
  "ragePatterns = [
     \<lparr>p_type = VERBAL_AGGRESSION,
      p_pattern = wordBounded (alts [Lit ''hate'', Lit ''despise'', Lit ''loathe'', Lit ''detest'',
        Lit ''can't stand'', seqs [Lit ''disgust'', Opt (Lit ''s''), Lit '' me''],
        seqs [Lit ''make'', Opt (Lit ''s''), Lit '' me sick'']]),
      p_weight = 0.7\<rparr>,
     \<lparr>p_type = VERBAL_AGGRESSION,
      p_pattern = wordBounded (alts [Seq (Lit ''idiot'') (Opt (Lit ''s'')),
        Seq (Lit ''moron'') (Opt (Lit ''s'')), Lit ''stupid'', Lit ''dumb'', Lit ''pathetic'',
        Lit ''worthless'', Lit ''garbage'', Lit ''trash'']),
      p_weight = 0.6\<rparr>,
     \<lparr>p_type = VERBAL_AGGRESSION,
      p_pattern = wordBounded (words [''shut up'', ''shut the hell up'', ''get lost'', ''go away'',
        ''leave me alone'']),
      p_weight = 0.5\<rparr>,
     \<lparr>p_type = THREAT_LANGUAGE,
      p_pattern = wordBounded (words [''i'll kill'', ''gonna kill'', ''want to kill'', ''should die'',
        ''deserve to die'']),
      p_weight = 1.0\<rparr>,
     \<lparr>p_type = THREAT_LANGUAGE,
      p_pattern = wordBounded (words [''i'll destroy'', ''gonna destroy'', ''wipe out'', ''eliminate'',
        ''get rid of'']),
      p_weight = 0.9\<rparr>,
     \<lparr>p_type = THREAT_LANGUAGE,
      p_pattern = wordBounded (words [''hunt down'', ''track down'', ''come after'', ''find you'',
        ''get you'']),
      p_weight = 0.8\<rparr>,
     \<lparr>p_type = VERBAL_AGGRESSION,
      p_pattern = wordBounded (words [''furious'', ''enraged'', ''livid'', ''seething'', ''boiling'',
        ''exploding with rage'']),
      p_weight = 0.8\<rparr>,
     \<lparr>p_type = VERBAL_AGGRESSION,
      p_pattern = wordBounded (words [''so angry'', ''pissed off'', ''fed up'', ''had enough'',
        ''can't take it'']),
      p_weight = 0.6\<rparr>]"

definition RageDetector_extractContext :: "string \<Rightarrow> string \<Rightarrow> string" where
  "RageDetector_extractContext text m =
     (case indexOf (toLowerCase text) (toLowerCase m) of
        None \<Rightarrow> m
      | Some matchIndex \<Rightarrow>
          (let start = nat (max 0 (int matchIndex - 30));
               stop = min (length text) (matchIndex + length m + 30)
           in trim (substring text start stop)))"

definition createRageIndicator ::
  "RageType \<Rightarrow> string list \<Rightarrow> real \<Rightarrow> string \<Rightarrow> RageIndicator option" where
  "createRageIndicator ty matches w ctx =
     (if length matches = 0 then None
      else Some \<lparr>r_type = ty,
                 intensity = min 1 (w + (real (length matches) - 1) * 0.1),
                 r_pattern = matches ! 0,
                 r_context = RageDetector_extractContext ctx (matches ! 0)\<rparr>)"

definition detectCapsLock :: "string \<Rightarrow> RageIndicator list" where
  "detectCapsLock text =
     (let letters = matchGlobal False (OneOf (upperLetters @ lowerLetters)) text;
          capitals = matchGlobal False (OneOf upperLetters) text
      in if length letters > 10 \<and> length capitals > 0
         then (let capsRatio = real (length capitals) / real (length letters);
                   capsSequences =
                     matchGlobal False
                       (seqs [OneOf upperLetters, OneOf upperLetters, OneOf upperLetters,
                              Star (OneOf upperLetters)]) text
               in if capsRatio > 0.5 \<or> length capsSequences > 0
                  then [\<lparr>r_type = CAPS_LOCK,
                         intensity = min 1 (capsRatio + real (length capsSequences) * 0.2),
                         r_pattern = (if join '', '' capsSequences = [] then ''excessive caps''
                                      else join '', '' capsSequences),
                         r_context = RageDetector_extractContext text
                                       (case capitals of [] \<Rightarrow> [] | c # _ \<Rightarrow> c)\<rparr>]
                  else [])
         else [])"

definition detectExclamationSpam :: "string \<Rightarrow> RageIndicator list" where
  "detectExclamationSpam text =
     (let exclamations = matchGlobal False (oneOrMore (Lit ''!'')) text;
          multiExclamations = filter (\<lambda>e. length e > 1) exclamations
      in if length multiExclamations > 0
         then (let maxLength = Max (set (map length multiExclamations))
               in [\<lparr>r_type = EXCLAMATION_SPAM,
                    intensity = min 1 ((real maxLength - 1) * 0.2
                                       + real (length multiExclamations) * 0.1),
                    r_pattern = join '', '' multiExclamations,
                    r_context = RageDetector_extractContext text (multiExclamations ! 0)\<rparr>])
         else [])"

definition profanityPatterns :: "regex list" where
  "profanityPatterns = [
     wordBounded (words [''damn'', ''hell'', ''crap'', ''sucks'', ''bullsh*t'', ''bs'']),
     wordBounded (words [''f*ck'', ''sh*t'', ''d*mn'', ''h*ll'']),
     wordBounded (words [''wtf'', ''stfu'', ''gtfo'', ''fml''])]"

definition detectProfanity :: "string \<Rightarrow> RageIndicator list" where
  "detectProfanity text =
     (let allMatches = concat (map (\<lambda>p. matchGlobal True p text) profanityPatterns);
          totalMatches = length allMatches
      in if totalMatches > 0
         then [\<lparr>r_type = PROFANITY,
                intensity = min 1 (real totalMatches * 0.3),
                r_pattern = join '', '' allMatches,
                r_context = RageDetector_extractContext text (allMatches ! 0)\<rparr>]
         else [])"

text \<open>The loop over the pattern table pushes one indicator for each pattern that matches
  the lower-cased text.\<close>

definition ruleIndicators :: "string \<Rightarrow> RageIndicator list" where
  "ruleIndicators text =
     List.map_filter
       (\<lambda>p. let matches = matchGlobal True (p_pattern p) (toLowerCase text)
            in if matches \<noteq> [] then createRageIndicator (p_type p) matches (p_weight p) text
               else None)
       ragePatterns"

text \<open>\<^verbatim>\<open>sort((a, b) => b.intensity - a.intensity)\<close>: a stable sort, highest intensity first.\<close>

definition detectRageIndicators :: "string \<Rightarrow> RageIndicator list" where
  "detectRageIndicators text =
     sort_key (\<lambda>i. - intensity i)
       (ruleIndicators text @ detectCapsLock text @ detectExclamationSpam text
        @ detectProfanity text)"

definition rageTypeWeights :: "RageType \<Rightarrow> real" where
  "rageTypeWeights t =
     (case t of VERBAL_AGGRESSION \<Rightarrow> 0.9 | THREAT_LANGUAGE \<Rightarrow> 1.0 | PROFANITY \<Rightarrow> 0.6
      | CAPS_LOCK \<Rightarrow> 0.4 | EXCLAMATION_SPAM \<Rightarrow> 0.3)"

definition calculateRageRisk :: "RageIndicator list \<Rightarrow> real" where
  "calculateRageRisk indicators =
     (if length indicators = 0 then 0
      else (let totalRisk =
                  fold (\<lambda>indicator total.
                          total + intensity indicator * orElse (rageTypeWeights (r_type indicator)) 0.5)
                       indicators 0
            in min 1 (totalRisk / 2)))"

section \<open>DistortionDetector\<close>

record DistortionDetector =
  rules :: "RuleConfig list"
  isInitialized :: bool

definition initialRules :: "RuleConfig list" where
  "initialRules = [
     \<lparr>ruleId = ''persecution_watching'',
      pattern = Some (seqs [words [''they'', ''everyone'', ''people''], Star AnyChar,
        words [''watching'', ''monitoring'', ''tracking'', ''following'', ''stalking''],
        Star AnyChar, words [''me'', ''us'']]),
      weight = 0.8, category = PERSECUTION, enabled = True\<rparr>,
     \<lparr>ruleId = ''persecution_targeting'',
      pattern = Some (seqs [words [''they'', ''everyone''], Star AnyChar,
        words [''targeting'', ''after'', ''coming for'', ''out to get''],
        Star AnyChar, words [''me'', ''us'']]),
      weight = 0.9, category = PERSECUTION, enabled = True\<rparr>,
     \<lparr>ruleId = ''persecution_control'',
      pattern = Some (seqs [words [''they'', ''government'', ''system''], Star AnyChar,
        words [''controlling'', ''manipulating'', ''brainwashing''],
        Star AnyChar, words [''me'', ''us'', ''people'']]),
      weight = 0.7, category = PERSECUTION, enabled = True\<rparr>,
     \<lparr>ruleId = ''conspiracy_deep_state'',
      pattern = Some (seqs [words [''deep state'', ''shadow government'', ''cabal'', ''elites''],
        Star AnyChar, words [''control'', ''run'', ''manipulate'']]),
      weight = 0.6, category = CONSPIRACY, enabled = True\<rparr>,
     \<lparr>ruleId = ''conspiracy_planned'',
      pattern = Some (seqs [words [''all planned'', ''orchestrated'', ''coordinated''],
        Star AnyChar, words [''by'', ''from''],
        Star AnyChar, words [''them'', ''elites'', ''government'']]),
      weight = 0.7, category = CONSPIRACY, enabled = True\<rparr>,
     \<lparr>ruleId = ''conspiracy_sheep'',
      pattern = Some (seqs [words [''sheep'', ''sheeple'', ''wake up'', ''open your eyes''],
        Star AnyChar,
        alts [Lit ''truth'', Lit ''reality'', seqs [Lit ''what'', Star AnyChar, Lit ''really'']]]),
      weight = 0.5, category = CONSPIRACY, enabled = True\<rparr>,
     \<lparr>ruleId = ''grandiosity_chosen'',
      pattern = Some (seqs [words [''i am'', ''i'm''], Star AnyChar,
        words [''chosen'', ''special'', ''enlightened'', ''awakened'', ''above'']]),
      weight = 0.6, category = GRANDIOSITY, enabled = True\<rparr>,
     \<lparr>ruleId = ''grandiosity_superior'',
      pattern = Some (seqs [words [''i'', ''me''], Star AnyChar,
        words [''superior'', ''better than'', ''above''],
        Star AnyChar, words [''everyone'', ''most people'', ''them'']]),
      weight = 0.7, category = GRANDIOSITY, enabled = True\<rparr>,
     \<lparr>ruleId = ''grandiosity_genius'',
      pattern = Some (seqs [words [''i am'', ''i'm''], Star AnyChar,
        words [''genius'', ''brilliant'', ''extraordinary'', ''gifted'']]),
      weight = 0.4, category = GRANDIOSITY, enabled = True\<rparr>,
     \<lparr>ruleId = ''catastrophizing_end'',
      pattern = Some (seqs [words [''end of'', ''collapse'', ''destruction'', ''apocalypse'', ''doom''],
        Star AnyChar, words [''world'', ''society'', ''everything'']]),
      weight = 0.6, category = CATASTROPHIZING, enabled = True\<rparr>,
     \<lparr>ruleId = ''catastrophizing_disaster'',
      pattern = Some (seqs [words [''disaster'', ''catastrophe'', ''crisis'', ''emergency''],
        Star AnyChar, words [''coming'', ''approaching'', ''inevitable'']]),
      weight = 0.7, category = CATASTROPHIZING, enabled = True\<rparr>,
     \<lparr>ruleId = ''catastrophizing_worst'',
      pattern = Some (seqs [words [''worst'', ''terrible'', ''horrible'', ''awful''],
        Star AnyChar, words [''ever'', ''possible'', ''imaginable'']]),
      weight = 0.5, category = CATASTROPHIZING, enabled = True\<rparr>,
     \<lparr>ruleId = ''all_or_nothing_always'',
      pattern = Some (seqs [words [''always'', ''never'', ''everyone'', ''no one'', ''everything'',
          ''nothing''],
        Star AnyChar, words [''does'', ''is'', ''will'']]),
      weight = 0.4, category = ALL_OR_NOTHING, enabled = True\<rparr>,
     \<lparr>ruleId = ''all_or_nothing_perfect'',
      pattern = Some (seqs [words [''perfect'', ''complete'', ''total'', ''absolute''],
        Star AnyChar, words [''failure'', ''success'', ''disaster'', ''victory'']]),
      weight = 0.5, category = ALL_OR_NOTHING, enabled = True\<rparr>,
     \<lparr>ruleId = ''mind_reading_think'',
      pattern = Some (seqs [words [''they'', ''everyone'', ''people''], Star AnyChar,
        words [''think'', ''believe'', ''know''],
        Star AnyChar, words [''i am'', ''i'm'', ''about me'']]),
      weight = 0.6, category = MIND_READING, enabled = True\<rparr>,
     \<lparr>ruleId = ''mind_reading_judging'',
      pattern = Some (seqs [words [''they'', ''everyone''], Star AnyChar,
        words [''judging'', ''laughing at'', ''looking down on''],
        Star AnyChar, words [''me'', ''us'']]),
      weight = 0.7, category = MIND_READING, enabled = True\<rparr>,
     \<lparr>ruleId = ''fortune_telling_will'',
      pattern = Some (seqs [words [''this will'', ''it will'', ''they will''], Star AnyChar,
        words [''destroy'', ''ruin'', ''end'', ''fail'']]),
      weight = 0.5, category = FORTUNE_TELLING, enabled = True\<rparr>,
     \<lparr>ruleId = ''fortune_telling_never'',
      pattern = Some (seqs [words [''i will never'', ''it will never'', ''nothing will ever''],
        Star AnyChar, words [''work'', ''succeed'', ''get better'']]),
      weight = 0.6, category = FORTUNE_TELLING, enabled = True\<rparr>]"

definition initializeRules :: "DistortionDetector \<Rightarrow> DistortionDetector" where
  "initializeRules det = det\<lparr>rules := initialRules, isInitialized := True\<rparr>"

text \<open>The constructor.\<close>

definition newDistortionDetector :: DistortionDetector where
  "newDistortionDetector = initializeRules \<lparr>rules = [], isInitialized = False\<rparr>"

text \<open>\<^verbatim>\<open>checkRule\<close> compiles the pattern with the flags \<^verbatim>\<open>gi\<close>; a pattern that does not
  compile is caught and yields no match.\<close>

definition checkRule :: "string \<Rightarrow> RuleConfig \<Rightarrow> string list" where
  "checkRule text rule =
     (case pattern rule of None \<Rightarrow> [] | Some regex \<Rightarrow> matchGlobal True regex text)"

definition DistortionDetector_extractContext :: "string \<Rightarrow> string \<Rightarrow> string" where
  "DistortionDetector_extractContext text m =
     (case indexOf (toLowerCase text) (toLowerCase m) of
        None \<Rightarrow> m
      | Some matchIndex \<Rightarrow>
          (let start = nat (max 0 (int matchIndex - 50));
               stop = min (length text) (matchIndex + length m + 50)
           in trim (substring text start stop)))"

definition createDistortion ::
  "RuleConfig \<Rightarrow> string list \<Rightarrow> string \<Rightarrow> CognitiveDistortion option" where
  "createDistortion rule matches ctx =
     (if length matches = 0 then None
      else (let baseScore = weight rule;
                frequencyMultiplier = min (real (length matches) * 0.1) 0.5
            in Some \<lparr>d_type = category rule,
                     severity = min 1 (baseScore + frequencyMultiplier),
                     d_keywords = map (\<lambda>m. trim (toLowerCase m)) matches,
                     d_context = DistortionDetector_extractContext ctx (matches ! 0)\<rparr>))"

text \<open>
  \<^verbatim>\<open>detectDistortions\<close> initialises the table first when the flag is not set (the
  constructor sets it, and nothing clears it). \<open>ensureInitialized\<close> is the detector after
  that step, which is also the detector the call leaves behind.
\<close>

definition ensureInitialized :: "DistortionDetector \<Rightarrow> DistortionDetector" where
  "ensureInitialized det = (if \<not> isInitialized det then initializeRules det else det)"

definition ruleDistortion :: "string \<Rightarrow> RuleConfig \<Rightarrow> CognitiveDistortion option" where
  "ruleDistortion text rule =
     (if \<not> enabled rule then None
      else (let matches = checkRule (toLowerCase text) rule
            in if length matches > 0 then createDistortion rule matches text else None))"

definition detectDistortions :: "DistortionDetector \<Rightarrow> string \<Rightarrow> CognitiveDistortion list" where
  "detectDistortions det text =
     sort_key (\<lambda>d. - severity d)
       (List.map_filter (ruleDistortion text) (rules (ensureInitialized det)))"

record DistortionSummary =
  totalSeverity :: real
  mostSevereType :: "DistortionType option"
  typeCount :: "DistortionType \<rightharpoonup> nat"

definition allDistortionTypes :: "DistortionType list" where
  "allDistortionTypes =
     [PERSECUTION, GRANDIOSITY, CONSPIRACY, CATASTROPHIZING, ALL_OR_NOTHING, MIND_READING,
      FORTUNE_TELLING]"

text \<open>The state of the loop of \<^verbatim>\<open>getDistortionSummary\<close>: the running total, the type of
  the most severe distortion so far, its severity, and the counts.\<close>

record SummaryLoop =
  l_totalSeverity :: real
  l_mostSevereType :: "DistortionType option"
  l_maxSeverity :: real
  l_typeCount :: "DistortionType \<rightharpoonup> nat"

definition summaryInit :: SummaryLoop where
  "summaryInit =
     \<lparr>l_totalSeverity = 0, l_mostSevereType = None, l_maxSeverity = 0,
      l_typeCount = map_of (map (\<lambda>t. (t, 0)) allDistortionTypes)\<rparr>"

text \<open>\<^verbatim>\<open>typeCount[distortion.type]++\<close> finds its key: the seven keys are bound from the
  start, so the second case of the increment does not arise.\<close>

definition increment :: "(DistortionType \<rightharpoonup> nat) \<Rightarrow> DistortionType \<Rightarrow> (DistortionType \<rightharpoonup> nat)" where
  "increment m t = (case m t of Some c \<Rightarrow> m(t \<mapsto> c + 1) | None \<Rightarrow> m)"

definition summaryStep :: "CognitiveDistortion \<Rightarrow> SummaryLoop \<Rightarrow> SummaryLoop" where
  "summaryStep distortion l =
     (let l1 = l\<lparr>l_totalSeverity := l_totalSeverity l + severity distortion,
                  l_typeCount := increment (l_typeCount l) (d_type distortion)\<rparr>
      in if severity distortion > l_maxSeverity l1
         then l1\<lparr>l_maxSeverity := severity distortion,
                  l_mostSevereType := Some (d_type distortion)\<rparr>
         else l1)"

definition getDistortionSummary :: "CognitiveDistortion list \<Rightarrow> DistortionSummary" where
  "getDistortionSummary distortions =
     (let l = fold summaryStep distortions summaryInit
      in \<lparr>totalSeverity = min 1 (l_totalSeverity l),
          mostSevereType = l_mostSevereType l,
          typeCount = l_typeCount l\<rparr>)"


text \<open>\<^verbatim>\<open>updateRule\<close> sets the flag of the first rule with the given id, when there is one.\<close>

fun setEnabled :: "string \<Rightarrow> bool \<Rightarrow> RuleConfig list \<Rightarrow> RuleConfig list" where
  "setEnabled rid en [] = []"
| "setEnabled rid en (r # rs) =
     (if ruleId r = rid then r\<lparr>enabled := en\<rparr> # rs else r # setEnabled rid en rs)"

definition updateRule :: "string \<Rightarrow> bool \<Rightarrow> DistortionDetector \<Rightarrow> DistortionDetector" where
  "updateRule rid en det =
     (case find (\<lambda>r. ruleId r = rid) (rules det) of
        None \<Rightarrow> det
      | Some rule \<Rightarrow> det\<lparr>rules := setEnabled rid en (rules det)\<rparr>)"

definition distortionTypeWeights :: "DistortionType \<Rightarrow> real" where
  "distortionTypeWeights t =
     (case t of PERSECUTION \<Rightarrow> 0.9 | CONSPIRACY \<Rightarrow> 0.8 | GRANDIOSITY \<Rightarrow> 0.6
      | CATASTROPHIZING \<Rightarrow> 0.7 | ALL_OR_NOTHING \<Rightarrow> 0.5 | MIND_READING \<Rightarrow> 0.6
      | FORTUNE_TELLING \<Rightarrow> 0.5)"

text \<open>\<^verbatim>\<open>Object.entries\<close> of the count map, in the order the keys were written.\<close>

definition entries :: "(DistortionType \<rightharpoonup> nat) \<Rightarrow> (DistortionType \<times> nat) list" where
  "entries m = List.map_filter (\<lambda>t. map_option (Pair t) (m t)) allDistortionTypes"

definition calculateDistortionRisk :: "DistortionDetector \<Rightarrow> string \<Rightarrow> real" where
  "calculateDistortionRisk det text =
     (let distortions = detectDistortions det text;
          summary = getDistortionSummary distortions;
          weightedRisk =
            fold (\<lambda>(t, count) risk. risk + real count * orElse (distortionTypeWeights t) 0.5 * 0.1)
                 (entries (typeCount summary)) 0
      in min 1 (weightedRisk + totalSeverity summary * 0.5))"

section \<open>NLPPipeline\<close>

text \<open>
  \<^verbatim>\<open>calculateConfidence\<close> receives what the sentiment analyzer returned for the item,
  \<open>None\<close> when it has no reading. \<open>analyzeContent\<close> is the record \<^verbatim>\<open>analyzeContent\<close>
  builds from the three analyses; the sentiment analyzer's answer and the measured
  time are its parameters.
\<close>

definition calculateConfidence ::
  "SentimentAnalysis option \<Rightarrow> CognitiveDistortion list \<Rightarrow> RageIndicator list \<Rightarrow> real" where
  "calculateConfidence sent distortions rage =
     (let (c1, f1) =
            (case sent of
               Some s \<Rightarrow> if s_confidence s > 0 then (s_confidence s, 1::nat) else (0, 0)
             | None \<Rightarrow> (0, 0));
          (c2, f2) =
            (if length distortions > 0
             then (c1 + min 1 (real (length distortions) * 0.2
                               + foldl (\<lambda>sum d. sum + severity d) 0 distortions
                                 / real (length distortions)), f1 + 1)
             else (c1, f1));
          (c3, f3) =
            (if length rage > 0
             then (c2 + min 1 (real (length rage) * 0.2
                               + foldl (\<lambda>sum r. sum + intensity r) 0 rage
                                 / real (length rage)), f2 + 1)
             else (c2, f2))
      in if f3 > 0 then c3 / real f3 else 0)"

definition zeroSentiment :: SentimentAnalysis where
  "zeroSentiment = \<lparr>valence = 0, arousal = 0, dominance = None, s_confidence = 0\<rparr>"

definition analyzeContent ::
  "DistortionDetector \<Rightarrow> real \<Rightarrow> SentimentAnalysis option \<Rightarrow> string \<Rightarrow> NLPAnalysis" where
  "analyzeContent det elapsed sent text =
     (let distortions = detectDistortions det text;
          rage = detectRageIndicators text
      in \<lparr>sentiment = (case sent of Some s \<Rightarrow> s | None \<Rightarrow> zeroSentiment),
          cognitiveDistortions = distortions,
          rageIndicators = rage,
          confidence = calculateConfidence sent distortions rage,
          processingTime = elapsed\<rparr>)"

definition aggregateAnalyses :: "NLPAnalysis list \<Rightarrow> NLPAnalysis" where
  "aggregateAnalyses analyses =
     (if length analyses = 0
      then \<lparr>sentiment = \<lparr>valence = 0, arousal = 0, dominance = None, s_confidence = 0\<rparr>,
            cognitiveDistortions = [], rageIndicators = [], confidence = 0, processingTime = 0\<rparr>
      else (let sentiments = map sentiment analyses
            in \<lparr>sentiment =
                  \<lparr>valence = foldl (\<lambda>sum s. sum + valence s) 0 sentiments
                              / real (length sentiments),
                   arousal = foldl (\<lambda>sum s. sum + arousal s) 0 sentiments
                              / real (length sentiments),
                   dominance = None,
                   s_confidence = foldl (\<lambda>sum s. sum + s_confidence s) 0 sentiments
                              / real (length sentiments)\<rparr>,
                cognitiveDistortions = concat (map cognitiveDistortions analyses),
                rageIndicators = concat (map rageIndicators analyses),
                confidence = foldl (\<lambda>sum a. sum + confidence a) 0 analyses
                             / real (length analyses),
                processingTime = foldl (\<lambda>sum a. sum + processingTime a) 0 analyses\<rparr>))"

definition calculateRiskScore :: "DistortionDetector \<Rightarrow> NLPAnalysis \<Rightarrow> real" where
  "calculateRiskScore det analysis =
     (let sentimentRisk =
            max 0 ((- valence (sentiment analysis) + arousal (sentiment analysis)) / 2);
          riskScore1 = 0 + sentimentRisk * 0.3;
          distortionRisk =
            calculateDistortionRisk det
              (join '' '' (map d_context (cognitiveDistortions analysis)));
          riskScore2 = riskScore1 + distortionRisk * 0.4;
          rageRisk = calculateRageRisk (rageIndicators analysis);
          riskScore3 = riskScore2 + rageRisk * 0.3
      in min 1 riskScore3)"

section \<open>Notions used to state the properties\<close>

text \<open>The factors of the confidence of one item, as the specification lists them: the
  sentiment reading's confidence when it is positive, a distortion factor when a
  distortion was found, a rage factor when a rage indicator was found.\<close>

definition confidenceFactors ::
  "SentimentAnalysis option \<Rightarrow> CognitiveDistortion list \<Rightarrow> RageIndicator list \<Rightarrow> real list" where
  "confidenceFactors sent distortions rage =
     (case sent of Some s \<Rightarrow> if s_confidence s > 0 then [s_confidence s] else [] | None \<Rightarrow> [])
     @ (if distortions \<noteq> []
        then [min 1 (0.2 * real (length distortions)
                     + sum_list (map severity distortions) / real (length distortions))]
        else [])
     @ (if rage \<noteq> []
        then [min 1 (0.2 * real (length rage)
                     + sum_list (map intensity rage) / real (length rage))]
        else [])"

text \<open>The highest severity of a list, counted from 0, and the type of the first
  distortion that reaches the highest severity, when some severity is positive.\<close>

definition maxSeverity :: "CognitiveDistortion list \<Rightarrow> real" where
  "maxSeverity ds = Max (insert 0 (severity ` set ds))"

definition firstMostSevere :: "CognitiveDistortion list \<Rightarrow> DistortionType option" where
  "firstMostSevere ds =
     (if list_all (\<lambda>d. severity d \<le> 0) ds then None
      else map_option d_type (find (\<lambda>d. severity d = Max (severity ` set ds)) ds))"

text \<open>
  A text is blank when it has white space only (the empty text is blank). A cursor into a
  blank text has white space before and after it, and \<open>wsMatchable\<close> is a syntactic test:
  only a regular expression that passes it can match inside a blank text.
\<close>

definition blankText :: "string \<Rightarrow> bool" where
  "blankText s = list_all isWhitespace s"

definition blankCursor :: "cursor \<Rightarrow> bool" where
  "blankCursor c =
     ((case fst c of None \<Rightarrow> True | Some x \<Rightarrow> isWhitespace x) \<and> list_all isWhitespace (snd c))"

primrec wsMatchable :: "regex \<Rightarrow> bool" where
  "wsMatchable (Lit w) = list_all isWhitespace w"
| "wsMatchable AnyChar = True"
| "wsMatchable (OneOf cs) = list_ex isWhitespace cs"
| "wsMatchable (Seq a b) = (wsMatchable a \<and> wsMatchable b)"
| "wsMatchable (Alt a b) = (wsMatchable a \<or> wsMatchable b)"
| "wsMatchable (Star a) = True"
| "wsMatchable (Opt a) = True"
| "wsMatchable WordBoundary = False"



section \<open>The bound of the iteration\<close>

text \<open>Every bound that is at least the number of characters left gives the same
  result, so the bound \<open>matchRe\<close> passes to \<open>starIter\<close> cuts nothing off.\<close>

lemma starIter_bound:
  "length (snd c) \<le> n \<Longrightarrow> length (snd c) \<le> k \<Longrightarrow> starIter f n c = starIter f k c"
proof (induction n arbitrary: k c)
  case 0
  then show ?case by (cases k) simp_all
next
  case (Suc n)
  show ?case
  proof (cases k)
    case 0
    then show ?thesis using Suc.prems by simp
  next
    case (Suc k')
    have "starIter f n c' = starIter f k' c'"
      if "c' \<in> set (filter (\<lambda>c'. length (snd c') < length (snd c)) (f c))" for c'
      using that Suc.prems \<open>k = Suc k'\<close> by (intro Suc.IH) auto
    then have eq: "map (starIter f n) (filter (\<lambda>c'. length (snd c') < length (snd c)) (f c))
        = map (starIter f k') (filter (\<lambda>c'. length (snd c') < length (snd c)) (f c))"
      by (intro map_cong) auto
    show ?thesis
      by (simp only: \<open>k = Suc k'\<close> starIter.simps eq)
  qed
qed

section \<open>Sums\<close>

lemma fold_add_sum_list:
  fixes g :: "'a \<Rightarrow> real"
  shows "fold (\<lambda>x acc. acc + g x) xs a = a + sum_list (map g xs)"
  by (induction xs arbitrary: a) simp_all

lemma foldl_add_sum_list:
  fixes g :: "'a \<Rightarrow> real"
  shows "foldl (\<lambda>acc x. acc + g x) a xs = a + sum_list (map g xs)"
  by (induction xs arbitrary: a) simp_all

lemma sum_list_nonneg_real:
  fixes g :: "'a \<Rightarrow> real"
  shows "(\<And>x. x \<in> set xs \<Longrightarrow> 0 \<le> g x) \<Longrightarrow> 0 \<le> sum_list (map g xs)"
  by (induction xs) auto

lemma sum_list_le_length:
  fixes xs :: "real list"
  shows "(\<And>x. x \<in> set xs \<Longrightarrow> x \<le> 1) \<Longrightarrow> sum_list xs \<le> real (length xs)"
  by (induction xs) (auto simp: add_mono)

lemma mean_unit_interval:
  fixes xs :: "real list"
  assumes "\<And>x. x \<in> set xs \<Longrightarrow> 0 \<le> x \<and> x \<le> 1"
  shows "0 \<le> sum_list xs / real (length xs) \<and> sum_list xs / real (length xs) \<le> 1"
proof (cases "xs = []")
  case True
  then show ?thesis by simp
next
  case False
  have "0 \<le> sum_list (map (\<lambda>x. x) xs)"
    using assms by (intro sum_list_nonneg_real) auto
  moreover have "sum_list xs \<le> real (length xs)"
    using assms by (intro sum_list_le_length) auto
  ultimately show ?thesis
    using False by (simp add: divide_le_eq)
qed

section \<open>Rage risk\<close>

lemma orElse_rageTypeWeights: "orElse (rageTypeWeights t) d = rageTypeWeights t"
  by (cases t) (simp_all add: orElse_def rageTypeWeights_def)

lemma rageTypeWeights_nonneg: "0 \<le> rageTypeWeights t"
  by (cases t) (simp_all add: rageTypeWeights_def)

lemma calculateRageRisk_sum:
  "calculateRageRisk indicators =
     min 1 ((\<Sum>i\<leftarrow>indicators. intensity i * rageTypeWeights (r_type i)) / 2)"
  by (cases indicators)
     (simp_all add: calculateRageRisk_def fold_add_sum_list orElse_rageTypeWeights)

lemma calculateRageRisk_bounds:
  assumes "\<And>i. i \<in> set indicators \<Longrightarrow> 0 \<le> intensity i"
  shows "0 \<le> calculateRageRisk indicators \<and> calculateRageRisk indicators \<le> 1"
proof -
  have "0 \<le> (\<Sum>i\<leftarrow>indicators. intensity i * rageTypeWeights (r_type i))"
    using assms by (intro sum_list_nonneg_real) (simp add: rageTypeWeights_nonneg)
  then show ?thesis
    by (simp add: calculateRageRisk_sum)
qed

text \<open>
  C3. For every list of rage indicators, \<open>calculateRageRisk\<close> is the sum of
  intensity times type weight (threat 1.0, verbal aggression 0.9, profanity 0.6,
  caps lock 0.4, exclamation spam 0.3), halved and capped at 1; for the empty list it is 0.
\<close>

theorem calculateRageRisk_formula:
  "calculateRageRisk indicators =
     min 1 ((\<Sum>i\<leftarrow>indicators. intensity i *
               (case r_type i of THREAT_LANGUAGE \<Rightarrow> 1.0 | VERBAL_AGGRESSION \<Rightarrow> 0.9
                | PROFANITY \<Rightarrow> 0.6 | CAPS_LOCK \<Rightarrow> 0.4 | EXCLAMATION_SPAM \<Rightarrow> 0.3)) / 2)
   \<and> calculateRageRisk [] = 0"
proof -
  have w: "rageTypeWeights t =
      (case t of THREAT_LANGUAGE \<Rightarrow> 1.0 | VERBAL_AGGRESSION \<Rightarrow> 0.9
       | PROFANITY \<Rightarrow> 0.6 | CAPS_LOCK \<Rightarrow> 0.4 | EXCLAMATION_SPAM \<Rightarrow> 0.3)" for t
    by (cases t) (simp_all add: rageTypeWeights_def)
  have "calculateRageRisk [] = 0"
    by (simp add: calculateRageRisk_def)
  then show ?thesis
    using calculateRageRisk_sum[of indicators] by (simp only: w)
qed

theorem calculateRageRisk_formula_witness:
  "calculateRageRisk
     [\<lparr>r_type = THREAT_LANGUAGE, intensity = 1, r_pattern = ''i'll kill'', r_context = ''i'll kill''\<rparr>,
      \<lparr>r_type = CAPS_LOCK, intensity = 0.5, r_pattern = ''excessive caps'', r_context = ''A''\<rparr>]
   = 0.6"
  using calculateRageRisk_formula
    [of "[\<lparr>r_type = THREAT_LANGUAGE, intensity = 1, r_pattern = ''i'll kill'', r_context = ''i'll kill''\<rparr>,
          \<lparr>r_type = CAPS_LOCK, intensity = 0.5, r_pattern = ''excessive caps'', r_context = ''A''\<rparr>]"]
  by simp

section \<open>Confidence and aggregation\<close>

lemma calculateConfidence_factors:
  "calculateConfidence sent distortions rage =
     (if confidenceFactors sent distortions rage = [] then 0
      else sum_list (confidenceFactors sent distortions rage)
           / real (length (confidenceFactors sent distortions rage)))"
  by (cases sent)
     (auto simp: calculateConfidence_def confidenceFactors_def foldl_add_sum_list Let_def
           mult.commute add_divide_distrib)

lemma confidenceFactors_unit:
  assumes "case sent of Some s \<Rightarrow> s_confidence s \<le> 1 | None \<Rightarrow> True"
    and "\<And>d. d \<in> set distortions \<Longrightarrow> 0 \<le> severity d"
    and "\<And>r. r \<in> set rage \<Longrightarrow> 0 \<le> intensity r"
    and "x \<in> set (confidenceFactors sent distortions rage)"
  shows "0 \<le> x \<and> x \<le> 1"
proof -
  have d: "0 \<le> sum_list (map severity distortions) / real (length distortions)"
    using assms(2) by (simp add: sum_list_nonneg_real)
  have r: "0 \<le> sum_list (map intensity rage) / real (length rage)"
    using assms(3) by (simp add: sum_list_nonneg_real)
  show ?thesis
    using assms(1,4) d r
    by (auto simp: confidenceFactors_def split: option.splits if_splits)
qed

lemma calculateConfidence_bounds:
  assumes "case sent of Some s \<Rightarrow> s_confidence s \<le> 1 | None \<Rightarrow> True"
    and "\<And>d. d \<in> set distortions \<Longrightarrow> 0 \<le> severity d"
    and "\<And>r. r \<in> set rage \<Longrightarrow> 0 \<le> intensity r"
  shows "0 \<le> calculateConfidence sent distortions rage
       \<and> calculateConfidence sent distortions rage \<le> 1"
  using mean_unit_interval[of "confidenceFactors sent distortions rage"]
    confidenceFactors_unit[OF assms]
  by (simp add: calculateConfidence_factors)

text \<open>
  C4. The confidence of one item is the unweighted mean of the factors that are present
  (the sentiment reading's confidence when it is positive, \<open>min 1 (0.2 * count + mean
  severity)\<close> when a distortion was found, \<open>min 1 (0.2 * count + mean intensity)\<close> when a
  rage indicator was found), and 0 when none is present.
\<close>

theorem calculateConfidence_mean:
  "calculateConfidence sent distortions rage =
     (if confidenceFactors sent distortions rage = [] then 0
      else sum_list (confidenceFactors sent distortions rage)
           / real (length (confidenceFactors sent distortions rage)))"
  by (rule calculateConfidence_factors)

theorem calculateConfidence_mean_witness:
  "calculateConfidence
     (Some \<lparr>valence = 0, arousal = 0, dominance = None, s_confidence = 0.5\<rparr>)
     [\<lparr>d_type = PERSECUTION, severity = 0.8, d_keywords = [], d_context = []\<rparr>] [] = 0.75"
  using calculateConfidence_mean
    [of "Some \<lparr>valence = 0, arousal = 0, dominance = None, s_confidence = 0.5\<rparr>"
        "[\<lparr>d_type = PERSECUTION, severity = 0.8, d_keywords = [], d_context = []\<rparr>]" "[]"]
  by (simp add: confidenceFactors_def)

text \<open>
  C5. Over a non-empty list of records \<open>aggregateAnalyses\<close> returns the means of valence,
  arousal and sentiment confidence, the concatenations of the distortion lists and of the
  rage indicator lists (nothing is removed), the mean of the confidences and the sum of the
  processing times; over the empty list it returns the record of zeros and empty lists.
  The function is total: it has a result for every list.
\<close>

theorem aggregateAnalyses_spec:
  "(analyses \<noteq> [] \<longrightarrow>
      valence (sentiment (aggregateAnalyses analyses))
        = sum_list (map (\<lambda>a. valence (sentiment a)) analyses) / real (length analyses)
    \<and> arousal (sentiment (aggregateAnalyses analyses))
        = sum_list (map (\<lambda>a. arousal (sentiment a)) analyses) / real (length analyses)
    \<and> s_confidence (sentiment (aggregateAnalyses analyses))
        = sum_list (map (\<lambda>a. s_confidence (sentiment a)) analyses) / real (length analyses)
    \<and> cognitiveDistortions (aggregateAnalyses analyses) = concat (map cognitiveDistortions analyses)
    \<and> rageIndicators (aggregateAnalyses analyses) = concat (map rageIndicators analyses)
    \<and> confidence (aggregateAnalyses analyses)
        = sum_list (map confidence analyses) / real (length analyses)
    \<and> processingTime (aggregateAnalyses analyses) = sum_list (map processingTime analyses))
   \<and> aggregateAnalyses [] =
       \<lparr>sentiment = \<lparr>valence = 0, arousal = 0, dominance = None, s_confidence = 0\<rparr>,
        cognitiveDistortions = [], rageIndicators = [], confidence = 0, processingTime = 0\<rparr>"
  by (simp add: aggregateAnalyses_def foldl_add_sum_list Let_def comp_def)

theorem aggregateAnalyses_spec_witness:
  "valence (sentiment (aggregateAnalyses
      [\<lparr>sentiment = \<lparr>valence = -1, arousal = 1, dominance = None, s_confidence = 1\<rparr>,
        cognitiveDistortions =
          [\<lparr>d_type = PERSECUTION, severity = 0.9, d_keywords = [], d_context = []\<rparr>],
        rageIndicators = [], confidence = 1, processingTime = 10\<rparr>,
       \<lparr>sentiment = \<lparr>valence = 0, arousal = 0, dominance = None, s_confidence = 0\<rparr>,
        cognitiveDistortions =
          [\<lparr>d_type = PERSECUTION, severity = 0.9, d_keywords = [], d_context = []\<rparr>],
        rageIndicators = [], confidence = 0, processingTime = 20\<rparr>])) = - 0.5
   \<and> length (cognitiveDistortions (aggregateAnalyses
      [\<lparr>sentiment = \<lparr>valence = -1, arousal = 1, dominance = None, s_confidence = 1\<rparr>,
        cognitiveDistortions =
          [\<lparr>d_type = PERSECUTION, severity = 0.9, d_keywords = [], d_context = []\<rparr>],
        rageIndicators = [], confidence = 1, processingTime = 10\<rparr>,
       \<lparr>sentiment = \<lparr>valence = 0, arousal = 0, dominance = None, s_confidence = 0\<rparr>,
        cognitiveDistortions =
          [\<lparr>d_type = PERSECUTION, severity = 0.9, d_keywords = [], d_context = []\<rparr>],
        rageIndicators = [], confidence = 0, processingTime = 20\<rparr>])) = 2
   \<and> confidence (aggregateAnalyses
      [\<lparr>sentiment = \<lparr>valence = -1, arousal = 1, dominance = None, s_confidence = 1\<rparr>,
        cognitiveDistortions =
          [\<lparr>d_type = PERSECUTION, severity = 0.9, d_keywords = [], d_context = []\<rparr>],
        rageIndicators = [], confidence = 1, processingTime = 10\<rparr>,
       \<lparr>sentiment = \<lparr>valence = 0, arousal = 0, dominance = None, s_confidence = 0\<rparr>,
        cognitiveDistortions =
          [\<lparr>d_type = PERSECUTION, severity = 0.9, d_keywords = [], d_context = []\<rparr>],
        rageIndicators = [], confidence = 0, processingTime = 20\<rparr>]) = 0.5
   \<and> processingTime (aggregateAnalyses
      [\<lparr>sentiment = \<lparr>valence = -1, arousal = 1, dominance = None, s_confidence = 1\<rparr>,
        cognitiveDistortions =
          [\<lparr>d_type = PERSECUTION, severity = 0.9, d_keywords = [], d_context = []\<rparr>],
        rageIndicators = [], confidence = 1, processingTime = 10\<rparr>,
       \<lparr>sentiment = \<lparr>valence = 0, arousal = 0, dominance = None, s_confidence = 0\<rparr>,
        cognitiveDistortions =
          [\<lparr>d_type = PERSECUTION, severity = 0.9, d_keywords = [], d_context = []\<rparr>],
        rageIndicators = [], confidence = 0, processingTime = 20\<rparr>]) = 30"
  using aggregateAnalyses_spec
    [of "[\<lparr>sentiment = \<lparr>valence = -1, arousal = 1, dominance = None, s_confidence = 1\<rparr>,
        cognitiveDistortions =
          [\<lparr>d_type = PERSECUTION, severity = 0.9, d_keywords = [], d_context = []\<rparr>],
        rageIndicators = [], confidence = 1, processingTime = 10\<rparr>,
       \<lparr>sentiment = \<lparr>valence = 0, arousal = 0, dominance = None, s_confidence = 0\<rparr>,
        cognitiveDistortions =
          [\<lparr>d_type = PERSECUTION, severity = 0.9, d_keywords = [], d_context = []\<rparr>],
        rageIndicators = [], confidence = 0, processingTime = 20\<rparr>]"]
  by simp

section \<open>Distortion severity\<close>

lemma initialRules_weight: "r \<in> set initialRules \<Longrightarrow> 0 \<le> weight r"
  by (auto simp: initialRules_def)

lemma newDistortionDetector_rules: "rules (ensureInitialized newDistortionDetector) = initialRules"
  by (simp add: ensureInitialized_def newDistortionDetector_def initializeRules_def)

lemma set_map_filter: "set (List.map_filter f xs) = {y. \<exists>x \<in> set xs. f x = Some y}"
  by (induction xs) (auto simp: List.map_filter_simps split: option.splits)

lemma detectDistortions_set:
  "set (detectDistortions det text) =
     {d. \<exists>r \<in> set (rules (ensureInitialized det)). ruleDistortion text r = Some d}"
  by (simp add: detectDistortions_def set_map_filter)

lemma detectDistortions_bounds:
  assumes "d \<in> set (detectDistortions det text)"
    and "\<And>r. r \<in> set (rules (ensureInitialized det)) \<Longrightarrow> 0 \<le> weight r"
  shows "0 \<le> severity d \<and> severity d \<le> 1"
proof -
  from assms(1) obtain r where r: "r \<in> set (rules (ensureInitialized det))"
    and c: "ruleDistortion text r = Some d"
    by (auto simp: detectDistortions_set)
  show ?thesis
    using c assms(2)[OF r]
    by (auto simp: ruleDistortion_def createDistortion_def Let_def split: if_splits)
qed

text \<open>
  C1, as the code has it. For every detector, every text and every enabled rule of the
  table that matches the lower-cased text \<open>matchCount \<ge> 1\<close> times, a distortion is emitted
  whose severity is \<open>min 1 (weight + min (0.1 * matchCount) 0.5)\<close>: the frequency term counts
  every match, the first one too, so a single match already adds 0.1 to the weight.
\<close>

theorem createDistortion_severity:
  assumes "rule \<in> set (rules (ensureInitialized det))" and "enabled rule"
    and "checkRule (toLowerCase text) rule = matches" and "length matches \<ge> 1"
  shows "\<exists>d. createDistortion rule matches text = Some d
           \<and> d \<in> set (detectDistortions det text)
           \<and> severity d = min 1 (weight rule + min (0.1 * real (length matches)) 0.5)"
proof -
  let ?d = "\<lparr>d_type = category rule,
             severity = min 1 (weight rule + min (real (length matches) * 0.1) 0.5),
             d_keywords = map (\<lambda>m. trim (toLowerCase m)) matches,
             d_context = DistortionDetector_extractContext text (matches ! 0)\<rparr>"
  have ne: "matches \<noteq> []"
    using assms(4) by (cases matches) simp_all
  have c: "createDistortion rule matches text = Some ?d"
    using ne by (simp add: createDistortion_def)
  have "ruleDistortion text rule = Some ?d"
    using assms(2,3) ne c by (simp add: ruleDistortion_def)
  then have "?d \<in> set (detectDistortions det text)"
    using assms(1) by (auto simp: detectDistortions_set)
  then show ?thesis using c by (simp add: mult.commute)
qed

theorem createDistortion_severity_witness:
  "\<exists>d. createDistortion (initialRules ! 12) [''never is''] ''Never is'' = Some d
       \<and> d \<in> set (detectDistortions newDistortionDetector ''Never is'')
       \<and> severity d = 5 / 10"
proof -
  have h1: "initialRules ! 12 \<in> set (rules (ensureInitialized newDistortionDetector))"
    by (simp add: newDistortionDetector_rules initialRules_def)
  have h2: "enabled (initialRules ! 12)"
    by (simp add: initialRules_def)
  have h3: "checkRule (toLowerCase ''Never is'') (initialRules ! 12) = [''never is'']"
    by code_simp
  have h4: "length [''never is''] \<ge> 1"
    by simp
  have w: "weight (initialRules ! 12) = 4 / 10"
    by (simp add: initialRules_def)
  show ?thesis
    using createDistortion_severity[OF h1 h2 h3 h4] w by simp
qed

text \<open>On the text \<^verbatim>\<open>never is\<close> the rule \<^verbatim>\<open>all_or_nothing_always\<close> (weight 0.4) matches once
  and the severity is 0.5, where \<open>min 1 (weight + min (0.1 * (matchCount - 1)) 0.5)\<close> is 0.4.\<close>

theorem createDistortion_severity_counterexample:
  "map severity (detectDistortions newDistortionDetector ''never is'') = [5 / 10]
   \<and> ruleId (initialRules ! 12) = ''all_or_nothing_always''
   \<and> checkRule (toLowerCase ''never is'') (initialRules ! 12) = [''never is'']
   \<and> weight (initialRules ! 12) = 4 / 10
   \<and> (5 / 10 :: real) \<noteq> min 1 (4 / 10 + min (1 / 10 * (real (length [''never is'']) - 1)) (5 / 10))"
proof -
  have "map severity (detectDistortions newDistortionDetector ''never is'') = [5 / 10]"
    by code_simp
  moreover have "checkRule (toLowerCase ''never is'') (initialRules ! 12) = [''never is'']"
    by code_simp
  moreover have "ruleId (initialRules ! 12) = ''all_or_nothing_always''"
    by (simp add: initialRules_def)
  moreover have "weight (initialRules ! 12) = 4 / 10"
    by (simp add: initialRules_def)
  ultimately show ?thesis by simp
qed

section \<open>Distortion summary\<close>

lemma find_snoc:
  "find P (xs @ [x]) =
     (case find P xs of None \<Rightarrow> (if P x then Some x else None) | Some y \<Rightarrow> Some y)"
  by (induction xs) simp_all

lemma maxSeverity_snoc: "maxSeverity (ds @ [x]) = max (severity x) (maxSeverity ds)"
proof -
  have "insert 0 (severity ` set (ds @ [x])) = insert (severity x) (insert 0 (severity ` set ds))"
    by auto
  then show ?thesis
    by (simp add: maxSeverity_def)
qed

lemma maxSeverity_ge: "d \<in> set ds \<Longrightarrow> severity d \<le> maxSeverity ds"
  by (simp add: maxSeverity_def)

lemma maxSeverity_nonneg: "0 \<le> maxSeverity ds"
  by (simp add: maxSeverity_def)

lemma maxSeverity_zero:
  assumes "list_all (\<lambda>d. severity d \<le> 0) ds"
  shows "maxSeverity ds = 0"
proof -
  have "maxSeverity ds \<le> 0"
    using assms by (simp add: maxSeverity_def list_all_iff)
  then show ?thesis
    using maxSeverity_nonneg[of ds] by simp
qed

lemma maxSeverity_pos:
  assumes "\<not> list_all (\<lambda>d. severity d \<le> 0) ds"
  shows "maxSeverity ds = Max (severity ` set ds) \<and> (\<exists>d \<in> set ds. severity d = maxSeverity ds)"
proof -
  from assms obtain d where d: "d \<in> set ds" "0 < severity d"
    by (auto simp: list_all_iff)
  then have ne: "severity ` set ds \<noteq> {}" by auto
  have "severity d \<le> Max (severity ` set ds)"
    using d(1) by simp
  then have "0 < Max (severity ` set ds)"
    using d(2) by simp
  then have eq: "maxSeverity ds = Max (severity ` set ds)"
    using ne by (simp add: maxSeverity_def max_def)
  have "Max (severity ` set ds) \<in> severity ` set ds"
    using ne by (intro Max_in) auto
  then show ?thesis using eq by auto
qed

lemma firstMostSevere_snoc:
  "firstMostSevere (ds @ [x]) =
     (if severity x > maxSeverity ds then Some (d_type x) else firstMostSevere ds)"
proof (cases "severity x > maxSeverity ds")
  case True
  then have pos: "\<not> list_all (\<lambda>d. severity d \<le> 0) (ds @ [x])"
    using maxSeverity_nonneg[of ds] by simp
  have "maxSeverity (ds @ [x]) = severity x"
    using True by (simp add: maxSeverity_snoc)
  then have mx: "Max (severity ` set (ds @ [x])) = severity x"
    using maxSeverity_pos[OF pos] by simp
  have "find (\<lambda>d. severity d = severity x) ds = None"
    using True maxSeverity_ge[of _ ds] by (fastforce simp: find_None_iff)
  then have "find (\<lambda>d. severity d = severity x) (ds @ [x]) = Some x"
    by (simp add: find_snoc)
  then show ?thesis
    using True pos mx by (simp add: firstMostSevere_def del: set_append)
next
  case False
  show ?thesis
  proof (cases "list_all (\<lambda>d. severity d \<le> 0) ds")
    case True
    then show ?thesis
      using False maxSeverity_zero[OF True] by (simp add: firstMostSevere_def)
  next
    case nz: False
    then have pos: "\<not> list_all (\<lambda>d. severity d \<le> 0) (ds @ [x])" by simp
    have "maxSeverity (ds @ [x]) = maxSeverity ds"
      using False by (simp add: maxSeverity_snoc)
    then have mx: "Max (severity ` set (ds @ [x])) = Max (severity ` set ds)"
      using maxSeverity_pos[OF pos] maxSeverity_pos[OF nz] by simp
    obtain d where "d \<in> set ds" "severity d = Max (severity ` set ds)"
      using maxSeverity_pos[OF nz] by auto
    then obtain y where "find (\<lambda>d. severity d = Max (severity ` set ds)) ds = Some y"
      by (cases "find (\<lambda>d. severity d = Max (severity ` set ds)) ds") (auto simp: find_None_iff)
    then have "find (\<lambda>d. severity d = Max (severity ` set ds)) (ds @ [x])
        = find (\<lambda>d. severity d = Max (severity ` set ds)) ds"
      by (simp add: find_snoc)
    then show ?thesis
      using False nz pos mx by (simp add: firstMostSevere_def del: set_append)
  qed
qed

lemma summaryInit_count: "l_typeCount summaryInit t = Some 0"
  by (cases t) (simp_all add: summaryInit_def allDistortionTypes_def)

lemma fold_summaryStep:
  "l_totalSeverity (fold summaryStep ds summaryInit) = sum_list (map severity ds)
   \<and> l_typeCount (fold summaryStep ds summaryInit) t = Some (length (filter (\<lambda>d. d_type d = t) ds))
   \<and> l_maxSeverity (fold summaryStep ds summaryInit) = maxSeverity ds
   \<and> l_mostSevereType (fold summaryStep ds summaryInit) = firstMostSevere ds"
proof (induction ds arbitrary: t rule: rev_induct)
  case Nil
  show ?case
    by (simp add: summaryInit_count)
       (simp add: summaryInit_def maxSeverity_def firstMostSevere_def)
next
  case (snoc x ds)
  show ?case
    using snoc[of t] snoc[of "d_type x"]
    by (simp add: summaryStep_def Let_def increment_def maxSeverity_snoc firstMostSevere_snoc max_def)
qed

lemma allDistortionTypes_UNIV: "set allDistortionTypes = UNIV"
proof -
  have "t \<in> set allDistortionTypes" for t
    by (cases t) (simp_all add: allDistortionTypes_def)
  then show ?thesis by auto
qed

lemma totalSeverity_nonneg:
  assumes "\<And>d. d \<in> set ds \<Longrightarrow> 0 \<le> severity d"
  shows "0 \<le> totalSeverity (getDistortionSummary ds)"
  using sum_list_nonneg_real[of ds severity] assms fold_summaryStep[of ds]
  by (simp add: getDistortionSummary_def Let_def)

text \<open>
  C8, as the code has it. For every list of distortions, the summary's total severity is
  the sum of the severities capped at 1; its count map binds each of the seven types
  to the number of distortions of that type (0 when there is none); and its most severe
  type is the type of the first distortion that reaches the highest severity, provided
  that severity is positive: it is null for the empty list and also for a list where no
  severity exceeds 0, since the loop starts its maximum at 0 and compares strictly.
\<close>

theorem getDistortionSummary_spec:
  "totalSeverity (getDistortionSummary ds) = min 1 (sum_list (map severity ds))
   \<and> typeCount (getDistortionSummary ds) t = Some (length (filter (\<lambda>d. d_type d = t) ds))
   \<and> dom (typeCount (getDistortionSummary ds)) = set allDistortionTypes
   \<and> distinct allDistortionTypes \<and> length allDistortionTypes = 7
   \<and> mostSevereType (getDistortionSummary ds) = firstMostSevere ds
   \<and> mostSevereType (getDistortionSummary []) = None"
proof -
  have "dom (typeCount (getDistortionSummary ds)) = UNIV"
    using fold_summaryStep[of ds] by (auto simp: getDistortionSummary_def Let_def)
  moreover have "mostSevereType (getDistortionSummary []) = None"
    by (simp add: getDistortionSummary_def summaryInit_def)
  moreover have "distinct allDistortionTypes \<and> length allDistortionTypes = 7"
    by (simp add: allDistortionTypes_def)
  ultimately show ?thesis
    using fold_summaryStep[of ds t] allDistortionTypes_UNIV
    by (simp add: getDistortionSummary_def Let_def)
qed

theorem getDistortionSummary_spec_witness:
  "totalSeverity (getDistortionSummary
     [\<lparr>d_type = CONSPIRACY, severity = 0.6, d_keywords = [], d_context = []\<rparr>,
      \<lparr>d_type = PERSECUTION, severity = 0.9, d_keywords = [], d_context = []\<rparr>,
      \<lparr>d_type = MIND_READING, severity = 0.9, d_keywords = [], d_context = []\<rparr>]) = 1
   \<and> typeCount (getDistortionSummary
     [\<lparr>d_type = CONSPIRACY, severity = 0.6, d_keywords = [], d_context = []\<rparr>,
      \<lparr>d_type = PERSECUTION, severity = 0.9, d_keywords = [], d_context = []\<rparr>,
      \<lparr>d_type = MIND_READING, severity = 0.9, d_keywords = [], d_context = []\<rparr>]) GRANDIOSITY = Some 0
   \<and> mostSevereType (getDistortionSummary
     [\<lparr>d_type = CONSPIRACY, severity = 0.6, d_keywords = [], d_context = []\<rparr>,
      \<lparr>d_type = PERSECUTION, severity = 0.9, d_keywords = [], d_context = []\<rparr>,
      \<lparr>d_type = MIND_READING, severity = 0.9, d_keywords = [], d_context = []\<rparr>]) = Some PERSECUTION"
  using getDistortionSummary_spec
    [of "[\<lparr>d_type = CONSPIRACY, severity = 0.6, d_keywords = [], d_context = []\<rparr>,
      \<lparr>d_type = PERSECUTION, severity = 0.9, d_keywords = [], d_context = []\<rparr>,
      \<lparr>d_type = MIND_READING, severity = 0.9, d_keywords = [], d_context = []\<rparr>]" GRANDIOSITY]
  by (simp add: firstMostSevere_def)

theorem getDistortionSummary_spec_counterexample:
  "mostSevereType (getDistortionSummary
     [\<lparr>d_type = PERSECUTION, severity = 0, d_keywords = [], d_context = []\<rparr>]) = None
   \<and> mostSevereType (getDistortionSummary
     [\<lparr>d_type = PERSECUTION, severity = 0, d_keywords = [], d_context = []\<rparr>]) \<noteq> Some PERSECUTION"
  by (simp add: getDistortionSummary_def summaryInit_def summaryStep_def Let_def)

section \<open>Rule updates\<close>

lemma find_ruleId_None: "rid \<notin> ruleId ` set rs \<Longrightarrow> find (\<lambda>r. ruleId r = rid) rs = None"
  by (induction rs) auto

text \<open>
  C10. \<open>updateRule\<close> with an id that no rule of the table has leaves the detector as it
  was, with every rule's pattern, weight, category and flag; it has a result (nothing is
  raised), and \<open>detectDistortions\<close> returns afterwards what it returned before.
\<close>

theorem updateRule_unknown:
  assumes "rid \<notin> ruleId ` set (rules det)"
  shows "updateRule rid en det = det
       \<and> rules (updateRule rid en det) = rules det
       \<and> detectDistortions (updateRule rid en det) text = detectDistortions det text"
  using find_ruleId_None[OF assms] by (simp add: updateRule_def)

theorem updateRule_unknown_witness:
  "updateRule ''no_such_rule'' False newDistortionDetector = newDistortionDetector
   \<and> detectDistortions (updateRule ''no_such_rule'' False newDistortionDetector) ''never is''
       = detectDistortions newDistortionDetector ''never is''"
proof -
  have "''no_such_rule'' \<notin> ruleId ` set (rules newDistortionDetector)"
    by (simp add: newDistortionDetector_def initializeRules_def initialRules_def)
  then show ?thesis
    using updateRule_unknown[of "''no_such_rule''" newDistortionDetector False "''never is''"]
    by simp
qed

section \<open>Scores stay between 0 and 1\<close>

lemma ragePatterns_weight: "p \<in> set ragePatterns \<Longrightarrow> 0 \<le> p_weight p"
  by (auto simp: ragePatterns_def)

lemma createRageIndicator_bounds:
  assumes "createRageIndicator ty matches w ctx = Some i" and "0 \<le> w"
  shows "0 \<le> intensity i \<and> intensity i \<le> 1"
proof -
  have "matches \<noteq> []" using assms(1) by (auto simp: createRageIndicator_def)
  then have "1 \<le> real (length matches)" by (cases matches) simp_all
  then show ?thesis
    using assms by (auto simp: createRageIndicator_def split: if_splits)
qed

lemma ruleIndicators_bounds:
  assumes "i \<in> set (ruleIndicators text)"
  shows "0 \<le> intensity i \<and> intensity i \<le> 1"
proof -
  from assms obtain p where p: "p \<in> set ragePatterns"
    and c: "createRageIndicator (p_type p) (matchGlobal True (p_pattern p) (toLowerCase text))
              (p_weight p) text = Some i"
    by (auto simp: ruleIndicators_def set_map_filter Let_def split: if_splits)
  show ?thesis
    using createRageIndicator_bounds[OF c ragePatterns_weight[OF p]] .
qed

lemma detectCapsLock_bounds:
  assumes "i \<in> set (detectCapsLock text)"
  shows "0 \<le> intensity i \<and> intensity i \<le> 1"
  using assms by (auto simp: detectCapsLock_def Let_def split: if_splits)

lemma detectExclamationSpam_bounds:
  assumes "i \<in> set (detectExclamationSpam text)"
  shows "0 \<le> intensity i \<and> intensity i \<le> 1"
proof -
  define ms where "ms = filter (\<lambda>e. length e > 1) (matchGlobal False (oneOrMore (Lit ''!'')) text)"
  have i: "ms \<noteq> []" "intensity i = min 1 ((real (Max (set (map length ms))) - 1) * 0.2
                       + real (length ms) * 0.1)"
    using assms by (auto simp: detectExclamationSpam_def Let_def ms_def split: if_splits)
  then have "Max (set (map length ms)) \<in> set (map length ms)"
    by (intro Max_in) auto
  then have "1 < Max (set (map length ms))"
    by (auto simp: ms_def)
  then show ?thesis using i by simp
qed

lemma detectProfanity_bounds:
  assumes "i \<in> set (detectProfanity text)"
  shows "0 \<le> intensity i \<and> intensity i \<le> 1"
  using assms by (auto simp: detectProfanity_def Let_def split: if_splits)

lemma detectRageIndicators_bounds:
  assumes "i \<in> set (detectRageIndicators text)"
  shows "0 \<le> intensity i \<and> intensity i \<le> 1"
  using assms ruleIndicators_bounds detectCapsLock_bounds detectExclamationSpam_bounds
    detectProfanity_bounds
  by (auto simp: detectRageIndicators_def)

lemma orElse_distortionTypeWeights: "0 \<le> orElse (distortionTypeWeights t) 0.5"
  by (cases t) (simp_all add: orElse_def distortionTypeWeights_def)

lemma fold_weighted_nonneg:
  "0 \<le> a \<Longrightarrow>
   0 \<le> fold (\<lambda>(t, count) risk. risk + real count * orElse (distortionTypeWeights t) 0.5 * 0.1) es a"
proof (induction es arbitrary: a)
  case Nil
  then show ?case by simp
next
  case (Cons e es)
  obtain t c where e: "e = (t, c)" by (cases e)
  have "0 \<le> a + real c * orElse (distortionTypeWeights t) 0.5 * 0.1"
    using Cons.prems orElse_distortionTypeWeights[of t] by simp
  then show ?case
    using Cons.IH e by simp
qed

lemma calculateDistortionRisk_bounds:
  assumes "\<And>r. r \<in> set (rules (ensureInitialized det)) \<Longrightarrow> 0 \<le> weight r"
  shows "0 \<le> calculateDistortionRisk det text \<and> calculateDistortionRisk det text \<le> 1"
proof -
  have "0 \<le> totalSeverity (getDistortionSummary (detectDistortions det text))"
    using detectDistortions_bounds[OF _ assms] by (intro totalSeverity_nonneg) blast
  then show ?thesis
    using fold_weighted_nonneg[of 0]
    by (simp add: calculateDistortionRisk_def Let_def add_nonneg_nonneg)
qed

lemma calculateRiskScore_eq:
  "calculateRiskScore det a =
     min 1 (0.3 * max 0 ((- valence (sentiment a) + arousal (sentiment a)) / 2)
            + 0.4 * calculateDistortionRisk det (join '' '' (map d_context (cognitiveDistortions a)))
            + 0.3 * calculateRageRisk (rageIndicators a))"
  by (simp add: calculateRiskScore_def Let_def mult.commute)

lemma calculateRiskScore_bounds:
  assumes "\<And>r. r \<in> set (rules (ensureInitialized det)) \<Longrightarrow> 0 \<le> weight r"
    and "\<And>i. i \<in> set (rageIndicators a) \<Longrightarrow> 0 \<le> intensity i"
  shows "0 \<le> calculateRiskScore det a \<and> calculateRiskScore det a \<le> 1"
proof -
  have "0 \<le> calculateDistortionRisk det (join '' '' (map d_context (cognitiveDistortions a)))"
    using calculateDistortionRisk_bounds[OF assms(1)] by blast
  moreover have "0 \<le> calculateRageRisk (rageIndicators a)"
    using calculateRageRisk_bounds[OF assms(2)] by blast
  ultimately show ?thesis
    by (simp add: calculateRiskScore_eq)
qed





text \<open>
  C9. For every text, every indicator of \<open>detectRageIndicators\<close> has its intensity and
  every distortion of \<open>detectDistortions\<close> its severity between 0 and 1, and the rage risk,
  the distortion risk, the confidence of the item's analysis and its risk score lie
  between 0 and 1. The rule table is any table without a negative weight (the table the
  constructor builds is one), and the sentiment reading, when there is one, has a
  confidence of at most 1.
\<close>

theorem scores_in_unit_interval:
  assumes "\<forall>r \<in> set (rules (ensureInitialized det)). 0 \<le> weight r"
    and "case sent of Some s \<Rightarrow> s_confidence s \<le> 1 | None \<Rightarrow> True"
  shows "(\<forall>i \<in> set (detectRageIndicators text). 0 \<le> intensity i \<and> intensity i \<le> 1)
       \<and> (\<forall>d \<in> set (detectDistortions det text). 0 \<le> severity d \<and> severity d \<le> 1)
       \<and> 0 \<le> calculateRageRisk (detectRageIndicators text)
       \<and> calculateRageRisk (detectRageIndicators text) \<le> 1
       \<and> 0 \<le> calculateDistortionRisk det text \<and> calculateDistortionRisk det text \<le> 1
       \<and> 0 \<le> confidence (analyzeContent det elapsed sent text)
       \<and> confidence (analyzeContent det elapsed sent text) \<le> 1
       \<and> 0 \<le> calculateRiskScore det (analyzeContent det elapsed sent text)
       \<and> calculateRiskScore det (analyzeContent det elapsed sent text) \<le> 1"
proof -
  have w: "\<And>r. r \<in> set (rules (ensureInitialized det)) \<Longrightarrow> 0 \<le> weight r"
    using assms(1) by blast
  have rage: "\<And>i. i \<in> set (detectRageIndicators text) \<Longrightarrow> 0 \<le> intensity i \<and> intensity i \<le> 1"
    by (rule detectRageIndicators_bounds)
  have dist: "\<And>d. d \<in> set (detectDistortions det text) \<Longrightarrow> 0 \<le> severity d \<and> severity d \<le> 1"
    using detectDistortions_bounds[OF _ w] by blast
  have rr: "0 \<le> calculateRageRisk (detectRageIndicators text)
      \<and> calculateRageRisk (detectRageIndicators text) \<le> 1"
    using rage by (intro calculateRageRisk_bounds) blast
  have dr: "0 \<le> calculateDistortionRisk det text \<and> calculateDistortionRisk det text \<le> 1"
    using calculateDistortionRisk_bounds[OF w] by blast
  have cf: "0 \<le> confidence (analyzeContent det elapsed sent text)
      \<and> confidence (analyzeContent det elapsed sent text) \<le> 1"
    using calculateConfidence_bounds[OF assms(2), of "detectDistortions det text"
        "detectRageIndicators text"] dist rage
    by (simp add: analyzeContent_def Let_def)
  have ri: "rageIndicators (analyzeContent det elapsed sent text) = detectRageIndicators text"
    by (simp add: analyzeContent_def Let_def)
  have "\<And>i. i \<in> set (rageIndicators (analyzeContent det elapsed sent text)) \<Longrightarrow> 0 \<le> intensity i"
    unfolding ri using rage by blast
  then have rs: "0 \<le> calculateRiskScore det (analyzeContent det elapsed sent text)
      \<and> calculateRiskScore det (analyzeContent det elapsed sent text) \<le> 1"
    using calculateRiskScore_bounds[OF w] by blast
  show ?thesis
    using rage dist rr dr cf rs by blast
qed

theorem scores_in_unit_interval_witness:
  "0 \<le> calculateRageRisk (detectRageIndicators ''I hate it!!'')
   \<and> calculateRageRisk (detectRageIndicators ''I hate it!!'') \<le> 1
   \<and> 0 \<le> confidence (analyzeContent newDistortionDetector 5 None ''I hate it!!'')
   \<and> confidence (analyzeContent newDistortionDetector 5 None ''I hate it!!'') \<le> 1
   \<and> 0 \<le> calculateRiskScore newDistortionDetector
            (analyzeContent newDistortionDetector 5 None ''I hate it!!'')
   \<and> calculateRiskScore newDistortionDetector
            (analyzeContent newDistortionDetector 5 None ''I hate it!!'') \<le> 1"
proof -
  have w: "\<forall>r \<in> set (rules (ensureInitialized newDistortionDetector)). 0 \<le> weight r"
    using initialRules_weight by (simp add: newDistortionDetector_rules)
  have s: "case None :: SentimentAnalysis option of Some s \<Rightarrow> s_confidence s \<le> 1 | None \<Rightarrow> True"
    by simp
  show ?thesis
    using scores_in_unit_interval[OF w s, of "''I hate it!!''" 5] by blast
qed

section \<open>Blank and short texts\<close>

lemma upper_not_whitespace: "c \<in> set upperLetters \<Longrightarrow> \<not> isWhitespace c"
  by (auto simp: upperLetters_def isWhitespace_def)

lemma lower_not_whitespace: "c \<in> set lowerLetters \<Longrightarrow> \<not> isWhitespace c"
  by (auto simp: lowerLetters_def isWhitespace_def)

lemma isWhitespace_toUpperChar: "isWhitespace (toUpperChar c) = isWhitespace c"
proof (cases "map_of (zip lowerLetters upperLetters) c")
  case None
  then show ?thesis by (simp add: toUpperChar_def)
next
  case (Some u)
  then have "(c, u) \<in> set (zip lowerLetters upperLetters)"
    by (rule map_of_SomeD)
  then have "c \<in> set lowerLetters" "u \<in> set upperLetters"
    by (auto dest: set_zip_leftD set_zip_rightD)
  then show ?thesis
    using Some upper_not_whitespace lower_not_whitespace by (simp add: toUpperChar_def)
qed

lemma isWhitespace_toLowerChar: "isWhitespace (toLowerChar c) = isWhitespace c"
proof (cases "map_of (zip upperLetters lowerLetters) c")
  case None
  then show ?thesis by (simp add: toLowerChar_def)
next
  case (Some l)
  then have "(c, l) \<in> set (zip upperLetters lowerLetters)"
    by (rule map_of_SomeD)
  then have "c \<in> set upperLetters" "l \<in> set lowerLetters"
    by (auto dest: set_zip_leftD set_zip_rightD)
  then show ?thesis
    using Some upper_not_whitespace lower_not_whitespace by (simp add: toLowerChar_def)
qed

lemma whitespace_not_word: "isWhitespace c \<Longrightarrow> \<not> isWordChar c"
  by (auto simp: isWhitespace_def isWordChar_def upperLetters_def lowerLetters_def digits_def)

lemma sameChar_whitespace: "sameChar ic x y \<Longrightarrow> isWhitespace y \<Longrightarrow> isWhitespace x"
  using isWhitespace_toUpperChar[of x] isWhitespace_toUpperChar[of y]
  by (auto simp: sameChar_def split: if_splits)

lemma matchLit_blank:
  "blankCursor c \<Longrightarrow> matchLit ic w c = Some c' \<Longrightarrow> blankCursor c' \<and> list_all isWhitespace w"
proof (induction ic w c rule: matchLit.induct)
  case (1 ic c)
  then show ?case by simp
next
  case (2 ic x xs p)
  then show ?case by simp
next
  case (3 ic x xs p y ys)
  then have s: "sameChar ic x y" and m: "matchLit ic xs (Some y, ys) = Some c'"
    by (auto split: if_splits)
  have y: "isWhitespace y" and b: "blankCursor (Some y, ys)"
    using "3.prems"(1) by (simp_all add: blankCursor_def)
  show ?case
    using "3.IH"[OF s b m] sameChar_whitespace[OF s y] by simp
qed

lemma starIter_blank:
  assumes "\<And>c c'. blankCursor c \<Longrightarrow> c' \<in> set (f c) \<Longrightarrow> blankCursor c'"
  shows "blankCursor c \<Longrightarrow> c' \<in> set (starIter f n c) \<Longrightarrow> blankCursor c'"
proof (induction n arbitrary: c)
  case 0
  then show ?case by simp
next
  case (Suc n)
  from Suc.prems(2) consider "c' = c"
    | c1 where "c1 \<in> set (f c)" "c' \<in> set (starIter f n c1)"
    by auto
  then show ?case
  proof cases
    case 1
    then show ?thesis using Suc.prems(1) by simp
  next
    case 2
    show ?thesis
      using Suc.IH[OF assms[OF Suc.prems(1) 2(1)] 2(2)] .
  qed
qed

lemma matchRe_blank:
  "blankCursor c \<Longrightarrow> c' \<in> set (matchRe ic r c) \<Longrightarrow> blankCursor c'"
proof (induction r arbitrary: c c')
  case (Lit w)
  from Lit.prems(2) have "matchLit ic w c = Some c'"
    by (auto split: option.splits)
  then show ?case
    using matchLit_blank[OF Lit.prems(1)] by blast
next
  case AnyChar
  obtain p s where c: "c = (p, s)" by (cases c)
  show ?case
    using AnyChar unfolding c by (cases s) (auto simp: blankCursor_def split: if_splits)
next
  case (OneOf cs)
  obtain p s where c: "c = (p, s)" by (cases c)
  show ?case
    using OneOf unfolding c by (cases s) (auto simp: blankCursor_def split: if_splits)
next
  case (Seq a b)
  from Seq.prems(2) obtain c1 where c1: "c1 \<in> set (matchRe ic a c)" "c' \<in> set (matchRe ic b c1)"
    by auto
  show ?case
    using Seq.IH(2)[OF Seq.IH(1)[OF Seq.prems(1) c1(1)] c1(2)] .
next
  case (Alt a b)
  from Alt.prems(2) have "c' \<in> set (matchRe ic a c) \<or> c' \<in> set (matchRe ic b c)"
    by simp
  then show ?case
    using Alt.IH(1)[OF Alt.prems(1)] Alt.IH(2)[OF Alt.prems(1)] by blast
next
  case (Star a)
  from Star.prems(2) have "c' \<in> set (starIter (matchRe ic a) (length (snd c)) c)"
    by simp
  then show ?case
    using starIter_blank[of "matchRe ic a" c c'] Star.IH Star.prems(1) by blast
next
  case (Opt a)
  from Opt.prems(2) have "c' \<in> set (matchRe ic a c) \<or> c' = c"
    by auto
  then show ?case
    using Opt.IH[OF Opt.prems(1)] Opt.prems(1) by blast
next
  case WordBoundary
  then have "c' = c" by (simp split: if_splits)
  then show ?case using WordBoundary.prems(1) by simp
qed

lemma matchRe_blank_none:
  "blankCursor c \<Longrightarrow> \<not> wsMatchable r \<Longrightarrow> matchRe ic r c = []"
proof (induction r arbitrary: c)
  case (Lit w)
  then show ?case
    using matchLit_blank[of c ic w] by (cases "matchLit ic w c") auto
next
  case (OneOf cs)
  have "\<not> list_ex (\<lambda>x. sameChar ic x y) cs" if "isWhitespace y" for y
    using OneOf.prems(2) that sameChar_whitespace by (auto simp: list_ex_iff)
  then show ?case
    using OneOf.prems(1) by (auto simp: blankCursor_def split: list.splits)
next
  case (Seq a b)
  show ?case
  proof (cases "wsMatchable a")
    case False
    then show ?thesis using Seq by simp
  next
    case True
    then have "\<not> wsMatchable b" using Seq.prems(2) by simp
    then have "matchRe ic b c' = []" if "c' \<in> set (matchRe ic a c)" for c'
      using Seq.IH(2) matchRe_blank[OF Seq.prems(1) that] by blast
    then show ?thesis by simp
  qed
next
  case (Alt a b)
  then show ?case by simp
next
  case WordBoundary
  then show ?case
    using whitespace_not_word
    by (auto simp: atWordBoundary_def blankCursor_def split: option.splits list.splits)
qed simp_all

lemma matchFrom_blank:
  "blankCursor c \<Longrightarrow> \<not> wsMatchable r \<Longrightarrow> matchFrom ic r c = []"
proof (induction "snd c" arbitrary: c)
  case Nil
  then show ?case
    using matchRe_blank_none[of c r ic] by (subst matchFrom.simps) simp
next
  case (Cons y ys)
  have "blankCursor (Some y, ys)"
    using Cons.prems(1) Cons.hyps(2)[symmetric] by (simp add: blankCursor_def)
  then have "matchFrom ic r (Some y, ys) = []"
    using Cons.hyps(1)[of "(Some y, ys)"] Cons.prems(2) by simp
  then show ?case
    using matchRe_blank_none[OF Cons.prems] Cons.hyps(2)[symmetric]
    by (subst matchFrom.simps) simp
qed

lemma matchGlobal_blank: "blankText s \<Longrightarrow> \<not> wsMatchable r \<Longrightarrow> matchGlobal ic r s = []"
  using matchFrom_blank[of "(None, s)"] by (simp add: matchGlobal_def blankCursor_def blankText_def)

lemma blankText_toLowerCase: "blankText (toLowerCase s) = blankText s"
  by (simp add: blankText_def toLowerCase_def list_all_iff isWhitespace_toLowerChar)

lemma wsMatchable_words: "wsMatchable (words ws) = list_ex (list_all isWhitespace) ws"
proof -
  have "wsMatchable (alts rs) = list_ex wsMatchable rs" for rs
    by (induction rs rule: alts.induct) simp_all
  then show ?thesis
    by (simp add: words_def list_ex_iff)
qed

lemma wsMatchable_wordBounded: "\<not> wsMatchable (wordBounded r)"
  by (simp add: wordBounded_def)

lemma ragePatterns_not_blank: "p \<in> set ragePatterns \<Longrightarrow> \<not> wsMatchable (p_pattern p)"
  by (auto simp: ragePatterns_def wsMatchable_wordBounded)

lemma profanityPatterns_not_blank: "p \<in> set profanityPatterns \<Longrightarrow> \<not> wsMatchable p"
  by (auto simp: profanityPatterns_def wsMatchable_wordBounded)

lemma initialRules_not_blank:
  "r \<in> set initialRules \<Longrightarrow> \<exists>re. pattern r = Some re \<and> \<not> wsMatchable re"
  by (auto simp: initialRules_def wsMatchable_words isWhitespace_def)

lemma map_filter_None: "(\<And>x. x \<in> set xs \<Longrightarrow> f x = None) \<Longrightarrow> List.map_filter f xs = []"
  by (induction xs) (simp_all add: List.map_filter_simps)

lemma detectRageIndicators_blank:
  assumes "blankText text"
  shows "detectRageIndicators text = []"
proof -
  have "ruleIndicators text = []"
    unfolding ruleIndicators_def
    using matchGlobal_blank[of "toLowerCase text"] assms ragePatterns_not_blank
    by (intro map_filter_None) (simp add: blankText_toLowerCase)
  moreover have "detectCapsLock text = []"
  proof -
    have "\<not> wsMatchable (OneOf (upperLetters @ lowerLetters))"
      using upper_not_whitespace lower_not_whitespace by (auto simp: list_ex_iff)
    then have "matchGlobal False (OneOf (upperLetters @ lowerLetters)) text = []"
      using matchGlobal_blank[OF assms] by blast
    then show ?thesis
      by (simp add: detectCapsLock_def)
  qed
  moreover have "detectExclamationSpam text = []"
    using matchGlobal_blank[OF assms, of "oneOrMore (Lit ''!'')" False]
    by (simp add: detectExclamationSpam_def oneOrMore_def isWhitespace_def)
  moreover have "detectProfanity text = []"
  proof -
    have "map (\<lambda>p. matchGlobal True p text) profanityPatterns = map (\<lambda>p. []) profanityPatterns"
      using matchGlobal_blank[OF assms] profanityPatterns_not_blank by (intro map_cong) auto
    then show ?thesis
      by (simp add: detectProfanity_def)
  qed
  ultimately show ?thesis
    by (simp add: detectRageIndicators_def)
qed

lemma detectDistortions_blank:
  assumes "blankText text"
  shows "detectDistortions newDistortionDetector text = []"
proof -
  have "ruleDistortion text r = None" if r: "r \<in> set initialRules" for r
  proof -
    obtain re where "pattern r = Some re" "\<not> wsMatchable re"
      using initialRules_not_blank[OF r] by blast
    then have "checkRule (toLowerCase text) r = []"
      using matchGlobal_blank[of "toLowerCase text" re True] assms
      by (simp add: checkRule_def blankText_toLowerCase)
    then show ?thesis
      by (simp add: ruleDistortion_def)
  qed
  then show ?thesis
    by (simp add: detectDistortions_def newDistortionDetector_rules map_filter_None)
qed

text \<open>
  C6, as the code has it. For every text that is empty or has white space only,
  \<open>detectRageIndicators\<close> and \<open>detectDistortions\<close> (with the table the constructor builds)
  return the empty list, and the rage risk of that list is 0; both functions are total,
  so nothing is raised. A text of fewer than 10 characters that is not blank is scanned
  like any other: the detectors have no length test.
\<close>

theorem blank_text_no_indicators:
  assumes "blankText text"
  shows "detectRageIndicators text = []
       \<and> detectDistortions newDistortionDetector text = []
       \<and> calculateRageRisk (detectRageIndicators text) = 0"
  using detectRageIndicators_blank[OF assms] detectDistortions_blank[OF assms]
  by (simp add: calculateRageRisk_def)

theorem blank_text_no_indicators_witness:
  "detectRageIndicators [CHR '' '', CHR 0x09, CHR 0x0A, CHR '' ''] = []
   \<and> detectDistortions newDistortionDetector [CHR '' '', CHR 0x09, CHR 0x0A, CHR '' ''] = []
   \<and> calculateRageRisk (detectRageIndicators [CHR '' '', CHR 0x09, CHR 0x0A, CHR '' '']) = 0"
proof -
  have "blankText [CHR '' '', CHR 0x09, CHR 0x0A, CHR '' '']"
    by (simp add: blankText_def isWhitespace_def)
  then show ?thesis
    by (rule blank_text_no_indicators)
qed

theorem blank_text_no_indicators_counterexample:
  "length ''never is'' < 10
   \<and> map d_type (detectDistortions newDistortionDetector ''never is'') = [ALL_OR_NOTHING]
   \<and> length ''I hate it'' < 10
   \<and> map r_type (detectRageIndicators ''I hate it'') = [VERBAL_AGGRESSION]
   \<and> calculateRageRisk (detectRageIndicators ''I hate it'') = 63 / 200"
proof -
  have "map d_type (detectDistortions newDistortionDetector ''never is'') = [ALL_OR_NOTHING]"
    by code_simp
  moreover have "detectRageIndicators ''I hate it'' =
      [\<lparr>r_type = VERBAL_AGGRESSION, intensity = 7 / 10, r_pattern = ''hate'',
        r_context = ''I hate it''\<rparr>]"
    by code_simp
  ultimately show ?thesis
    by (simp add: calculateRageRisk_sum rageTypeWeights_def)
qed

section \<open>Context snippets\<close>




















section \<open>A scenario of the specification\<close>

text \<open>
  The text \<^verbatim>\<open>I HATE YOU!!! YOU ARE SO STUPID!!!\<close> yields verbal aggression (twice), a
  caps-lock indicator and an exclamation-spam indicator, sorted by intensity, and a rage
  risk above 0.5.
\<close>

lemma scenario_rage:
  "detectRageIndicators ''I HATE YOU!!! YOU ARE SO STUPID!!!'' =
     [\<lparr>r_type = CAPS_LOCK, intensity = 1, r_pattern = ''HATE, YOU, YOU, ARE, STUPID'',
       r_context = ''I HATE YOU!!! YOU ARE SO STUPID''\<rparr>,
      \<lparr>r_type = VERBAL_AGGRESSION, intensity = 7 / 10, r_pattern = ''hate'',
       r_context = ''I HATE YOU!!! YOU ARE SO STUPID!!!''\<rparr>,
      \<lparr>r_type = VERBAL_AGGRESSION, intensity = 6 / 10, r_pattern = ''stupid'',
       r_context = ''I HATE YOU!!! YOU ARE SO STUPID!!!''\<rparr>,
      \<lparr>r_type = EXCLAMATION_SPAM, intensity = 6 / 10, r_pattern = ''!!!, !!!'',
       r_context = ''I HATE YOU!!! YOU ARE SO STUPID!!!''\<rparr>]"
  by code_simp

lemma scenario_rage_risk:
  "calculateRageRisk (detectRageIndicators ''I HATE YOU!!! YOU ARE SO STUPID!!!'') = 7 / 8"
  by (simp add: scenario_rage calculateRageRisk_sum rageTypeWeights_def)


end
